theory Spec2Isabelle
  imports Complex_Main
begin

section \<open>Numbers, arrays, vectors and matrices\<close>

text \<open>
  The emitter computes on JavaScript numbers. They are modelled in exact arithmetic:
  \<open>Num x\<close> is the finite number \<open>x\<close>, and \<open>NaN\<close> stands for every value that is
  not a finite number: NaN itself, \<open>undefined\<close> (what a read outside an array gives, and
  what arithmetic turns into NaN) and the infinities that a division by zero gives.
  Arithmetic on a value that is not finite gives a value that is not finite. Rounding is
  not modelled.
\<close>

datatype num = Num real | NaN

instantiation num :: "{plus, minus, times}"
begin

fun plus_num :: "num \<Rightarrow> num \<Rightarrow> num" where
  "plus_num (Num a) (Num b) = Num (a + b)"
| "plus_num _ _ = NaN"

fun minus_num :: "num \<Rightarrow> num \<Rightarrow> num" where
  "minus_num (Num a) (Num b) = Num (a - b)"
| "minus_num _ _ = NaN"

fun times_num :: "num \<Rightarrow> num \<Rightarrow> num" where
  "times_num (Num a) (Num b) = Num (a * b)"
| "times_num _ _ = NaN"

instance ..

end

text \<open>\<open>a / b\<close>: a zero divisor gives an infinity or NaN, never a finite number.\<close>

fun num_div :: "num \<Rightarrow> num \<Rightarrow> num" where
  "num_div (Num a) (Num b) = (if b = 0 then NaN else Num (a / b))"
| "num_div _ _ = NaN"

text \<open>
  \<open>a[i]\<close> for an integer \<open>i\<close>: the element, or \<open>undefined\<close> (\<open>None\<close>) when \<open>i\<close> is
  negative or not below the length. JavaScript does not raise here.
\<close>

definition array_get :: "'a list \<Rightarrow> int \<Rightarrow> 'a option" where
  "array_get a i = (if 0 \<le> i \<and> i < int (length a) then Some (a ! nat i) else None)"

text \<open>
  \<open>a[off]\<close> on an array of floats, where the offset itself may be NaN (\<open>None\<close>):
  \<open>a[NaN]\<close> is \<open>undefined\<close>.
\<close>

definition float_get :: "num list \<Rightarrow> int option \<Rightarrow> num" where
  "float_get a off =
     (case off of
        None \<Rightarrow> NaN
      | Some i \<Rightarrow> (case array_get a i of None \<Rightarrow> NaN | Some v \<Rightarrow> v))"

text \<open>The class \<open>Vector3\<close>: the fields \<open>x\<close>, \<open>y\<close>, \<open>z\<close>.\<close>

record Vector3 =
  vx :: num
  vy :: num
  vz :: num

text \<open>The class \<open>Matrix\<close>: its sixteen entries \<open>m[0]\<close> .. \<open>m[15]\<close>, translation in \<open>m[12..14]\<close>.\<close>

type_synonym Matrix = "nat \<Rightarrow> real"

definition Identity :: Matrix where
  "Identity = (\<lambda>i. if i = 0 \<or> i = 5 \<or> i = 10 \<or> i = 15 then 1 else 0)"

text \<open>The matrix with its translation entries replaced.\<close>

definition setTranslation :: "Matrix \<Rightarrow> real \<Rightarrow> real \<Rightarrow> real \<Rightarrow> Matrix" where
  "setTranslation mat tx ty tz = mat(12 := tx, 13 := ty, 14 := tz)"

text \<open>
  Modelled from the spec: \<open>Vector3.Zero\<close>, \<open>Vector3.asArray\<close> and
  \<open>Vector3.FromArrayToRef\<close> of Maths/math.vector are not among the sources. The spec
  counts them among the generic vector primitives; a vector is serialized as \<open>[x,y,z]\<close>
  and a vertex \<open>i\<close> occupies the three entries from \<open>3i\<close> of a float array.
  \<open>FromArrayToRef array offset\<close> is the new content of the vector it fills.
\<close>

definition Zero :: Vector3 where
  "Zero = \<lparr>vx = Num 0, vy = Num 0, vz = Num 0\<rparr>"

definition asArray :: "Vector3 \<Rightarrow> num list" where
  "asArray v = [vx v, vy v, vz v]"

definition FromArrayToRef :: "num list \<Rightarrow> int option \<Rightarrow> Vector3" where
  "FromArrayToRef array offset =
     \<lparr>vx = float_get array offset,
      vy = float_get array (map_option (\<lambda>i. i + 1) offset),
      vz = float_get array (map_option (\<lambda>i. i + 2) offset)\<rparr>"

text \<open>
  Modelled from the spec: \<open>Vector3.TransformCoordinatesFromFloatsToRef\<close>,
  \<open>Vector3.TransformNormalFromFloatsToRef\<close> and \<open>Vector3.TransformNormalToRef\<close> of
  Maths/math.vector are not among the sources. The spec: the point is transformed by
  the world matrix with a full coordinate transform, including translation; a direction
  is transformed direction-only, so that scale and rotation affect it and translation
  does not. The coordinate transform is the product of the row \<open>(x, y, z, 1)\<close> with
  the matrix, divided by its fourth component; the normal transform is the product of
  \<open>(x, y, z)\<close> with the upper-left 3x3 block. Each is the new content of the vector it
  fills.
\<close>

definition TransformCoordinatesFromFloatsToRef ::
  "num \<Rightarrow> num \<Rightarrow> num \<Rightarrow> Matrix \<Rightarrow> Vector3" where
  "TransformCoordinatesFromFloatsToRef x y z transformation =
     (let m = transformation;
          rx = x * Num (m 0) + y * Num (m 4) + z * Num (m 8) + Num (m 12);
          ry = x * Num (m 1) + y * Num (m 5) + z * Num (m 9) + Num (m 13);
          rz = x * Num (m 2) + y * Num (m 6) + z * Num (m 10) + Num (m 14);
          rw = num_div (Num 1) (x * Num (m 3) + y * Num (m 7) + z * Num (m 11) + Num (m 15))
      in \<lparr>vx = rx * rw, vy = ry * rw, vz = rz * rw\<rparr>)"

definition TransformNormalFromFloatsToRef ::
  "num \<Rightarrow> num \<Rightarrow> num \<Rightarrow> Matrix \<Rightarrow> Vector3" where
  "TransformNormalFromFloatsToRef x y z transformation =
     (let m = transformation
      in \<lparr>vx = x * Num (m 0) + y * Num (m 4) + z * Num (m 8),
          vy = x * Num (m 1) + y * Num (m 5) + z * Num (m 9),
          vz = x * Num (m 2) + y * Num (m 6) + z * Num (m 10)\<rparr>)"

definition TransformNormalToRef :: "Vector3 \<Rightarrow> Matrix \<Rightarrow> Vector3" where
  "TransformNormalToRef vector transformation =
     TransformNormalFromFloatsToRef (vx vector) (vy vector) (vz vector) transformation"

text \<open>
  Modelled from the spec: \<open>Scalar.RandomRange\<close> of Maths/math.scalar is not among the
  sources. The spec: a uniform scalar between the two bounds, in whichever order they
  come. With \<open>r\<close> the draw of the ambient random source in \<open>[0,1)\<close> that is the point
  \<open>r * (max - min) + min\<close>; equal bounds give the bound itself.
\<close>

definition RandomRange :: "real \<Rightarrow> num \<Rightarrow> num \<Rightarrow> num" where
  "RandomRange r mn mx =
     (if mn = mx \<and> mn \<noteq> NaN then mn else Num r * (mx - mn) + mn)"

text \<open>
  \<open>x | 0\<close> on a finite number: ToInt32 of \<open>x\<close> (truncate towards zero, wrap into 32 bits,
  read as signed); the bitwise or with 0 changes nothing.
\<close>

definition ToInt32 :: "real \<Rightarrow> int" where
  "ToInt32 x =
     (let t = (if 0 \<le> x then \<lfloor>x\<rfloor> else \<lceil>x\<rceil>);
          u = t mod 2 ^ 32
      in if u < 2 ^ 31 then u else u - 2 ^ 32)"

section \<open>The mesh and the scene\<close>

text \<open>
  Modelled from the spec: \<open>AbstractMesh\<close>, \<open>VertexBuffer\<close> and \<open>Scene\<close> are not among the
  sources. The spec: a mesh-like collaborator with a stable identifier, exposing index
  data and per-vertex-kind float data (position kind, normal kind), each optionally
  absent; and a scene that resolves a mesh identifier to a mesh, or to nothing.
\<close>

datatype VertexKind = PositionKind | NormalKind

record AbstractMesh =
  mesh_id :: string
  mesh_indices :: "int list option"
  mesh_positions :: "num list option"
  mesh_normals :: "num list option"

definition getIndices :: "AbstractMesh \<Rightarrow> int list option" where
  "getIndices msh = mesh_indices msh"

definition getVerticesData :: "AbstractMesh \<Rightarrow> VertexKind \<Rightarrow> num list option" where
  "getVerticesData msh kind =
     (case kind of PositionKind \<Rightarrow> mesh_positions msh | NormalKind \<Rightarrow> mesh_normals msh)"

record Scene =
  meshes :: "AbstractMesh list"

definition getLastMeshByID :: "Scene \<Rightarrow> string \<Rightarrow> AbstractMesh option" where
  "getLastMeshByID scene ident = find (\<lambda>msh. mesh_id msh = ident) (rev (meshes scene))"

section \<open>The emitter\<close>

text \<open>
  The class \<open>MeshParticleEmitter\<close>. The private fields \<open>_indices\<close>, \<open>_positions\<close>,
  \<open>_normals\<close> and \<open>_storedNormal\<close> lose their underscore; \<open>None\<close> is \<open>null\<close> (or, for
  \<open>mesh\<close>, \<open>undefined\<close>).
\<close>

record MeshParticleEmitter =
  indices :: "int list option"
  positions :: "num list option"
  normals :: "num list option"
  storedNormal :: Vector3
  direction1 :: Vector3
  direction2 :: Vector3
  useMeshNormalsForDirection :: bool
  mesh :: "AbstractMesh option"

text \<open>The constructor, with the field initialisers.\<close>

definition new_MeshParticleEmitter :: "AbstractMesh option \<Rightarrow> MeshParticleEmitter" where
  "new_MeshParticleEmitter mesh0 =
     (let this = \<lparr>indices = None, positions = None, normals = None,
                  storedNormal = Zero,
                  direction1 = \<lparr>vx = Num 0, vy = Num 1, vz = Num 0\<rparr>,
                  direction2 = \<lparr>vx = Num 0, vy = Num 1, vz = Num 0\<rparr>,
                  useMeshNormalsForDirection = True,
                  mesh = mesh0\<rparr>
      in case mesh0 of
           None \<Rightarrow> this
         | Some msh \<Rightarrow>
             this\<lparr>indices := getIndices msh,
                  positions := getVerticesData msh PositionKind,
                  normals := getVerticesData msh NormalKind\<rparr>)"

text \<open>
  \<open>startDirectionFunction\<close>: the result is the new content of \<open>directionToUpdate\<close>.
  \<open>rX\<close>, \<open>rY\<close>, \<open>rZ\<close> are the draws of \<open>Math.random()\<close> that the three calls of
  \<open>RandomRange\<close> make, one each; the particle is not used.
\<close>

definition startDirectionFunction ::
  "MeshParticleEmitter \<Rightarrow> Matrix \<Rightarrow> Vector3 \<Rightarrow> real \<Rightarrow> real \<Rightarrow> real \<Rightarrow> Vector3" where
  "startDirectionFunction this worldMatrix directionToUpdate rX rY rZ =
     (if useMeshNormalsForDirection this \<and> normals this \<noteq> None
      then TransformNormalToRef (storedNormal this) worldMatrix
      else
        let randX = RandomRange rX (vx (direction1 this)) (vx (direction2 this));
            randY = RandomRange rY (vy (direction1 this)) (vy (direction2 this));
            randZ = RandomRange rZ (vz (direction1 this)) (vz (direction2 this))
        in TransformNormalFromFloatsToRef randX randY randZ worldMatrix)"

text \<open>
  The pieces of \<open>startPositionFunction\<close>, with \<open>r\<close>, \<open>r1\<close>, \<open>r2\<close> the draws of
  \<open>Math.random()\<close> in the order the code makes them.

  \<open>3 * Math.random() * (this._indices.length / 3) | 0\<close>: the multiplications bind
  tighter than \<open>|\<close>, so the whole product is truncated.
\<close>

definition randomFaceIndex :: "int list \<Rightarrow> real \<Rightarrow> int" where
  "randomFaceIndex idx r = ToInt32 (3 * r * (real (length idx) / 3))"

text \<open>\<open>bu\<close>, \<open>bv\<close>, \<open>bw\<close>.\<close>

definition barycentric :: "real \<Rightarrow> real \<Rightarrow> real \<times> real \<times> real" where
  "barycentric r1 r2 =
     (let bu = r1;
          bv = r2 * (1 - bu);
          bw = 1 - bu - bv
      in (bu, bv, bw))"

text \<open>
  \<open>faceIndexA * 3\<close>: three times the index, NaN when the index is \<open>undefined\<close>.
\<close>

definition times3 :: "int option \<Rightarrow> int option" where
  "times3 faceIndex = map_option (\<lambda>i. i * 3) faceIndex"

text \<open>
  The weighted sum written out three times for the position and three times for the
  normal: \<open>bu * vertexA.c + bv * vertexB.c + bw * vertexC.c\<close> on each component.
\<close>

definition interpolate ::
  "real \<times> real \<times> real \<Rightarrow> Vector3 \<Rightarrow> Vector3 \<Rightarrow> Vector3 \<Rightarrow> Vector3" where
  "interpolate w vertexA vertexB vertexC =
     (case w of (bu, bv, bw) \<Rightarrow>
        \<lparr>vx = Num bu * vx vertexA + Num bv * vx vertexB + Num bw * vx vertexC,
         vy = Num bu * vy vertexA + Num bv * vy vertexB + Num bw * vy vertexC,
         vz = Num bu * vz vertexA + Num bv * vz vertexB + Num bw * vz vertexC\<rparr>)"

text \<open>
  \<open>startPositionFunction\<close>: the result is the emitter after the call and the new
  content of \<open>positionToUpdate\<close>. The scratch vectors of \<open>TmpVectors\<close> are local values;
  the particle is not used.
\<close>

definition startPositionFunction ::
  "MeshParticleEmitter \<Rightarrow> Matrix \<Rightarrow> Vector3 \<Rightarrow> real \<Rightarrow> real \<Rightarrow> real
     \<Rightarrow> MeshParticleEmitter \<times> Vector3" where
  "startPositionFunction this worldMatrix positionToUpdate r r1 r2 =
     (case indices this of
        None \<Rightarrow> (this, positionToUpdate)
      | Some idx \<Rightarrow>
     (case positions this of
        None \<Rightarrow> (this, positionToUpdate)
      | Some pos \<Rightarrow>
        let face = randomFaceIndex idx r;
            w = barycentric r1 r2;
            faceIndexA = array_get idx face;
            faceIndexB = array_get idx (face + 1);
            faceIndexC = array_get idx (face + 2);
            vertexA = FromArrayToRef pos (times3 faceIndexA);
            vertexB = FromArrayToRef pos (times3 faceIndexB);
            vertexC = FromArrayToRef pos (times3 faceIndexC);
            randomVertex = interpolate w vertexA vertexB vertexC;
            positionToUpdate' =
              TransformCoordinatesFromFloatsToRef
                (vx randomVertex) (vy randomVertex) (vz randomVertex) worldMatrix
        in (case (useMeshNormalsForDirection this, normals this) of
              (True, Some nrm) \<Rightarrow>
                let normalA = FromArrayToRef nrm (times3 faceIndexA);
                    normalB = FromArrayToRef nrm (times3 faceIndexB);
                    normalC = FromArrayToRef nrm (times3 faceIndexC)
                in (this\<lparr>storedNormal := interpolate w normalA normalB normalC\<rparr>,
                    positionToUpdate')
            | _ \<Rightarrow> (this, positionToUpdate'))))"





definition getClassName :: "MeshParticleEmitter \<Rightarrow> string" where
  "getClassName this = ''MeshParticleEmitter''"

text \<open>
  The object that \<open>serialize\<close> builds and \<open>parse\<close> reads, with the fields \<open>type\<close>,
  \<open>direction1\<close>, \<open>direction2\<close>, \<open>meshId\<close> (\<open>None\<close> is \<open>undefined\<close>) and
  \<open>useMeshNormalsForDirection\<close>; the field names carry a prefix to keep them apart from
  the emitter's.
\<close>

record SerializationObject =
  so_type :: string
  so_direction1 :: "num list"
  so_direction2 :: "num list"
  so_meshId :: "string option"
  so_useMeshNormalsForDirection :: bool

definition serialize :: "MeshParticleEmitter \<Rightarrow> SerializationObject" where
  "serialize this =
     \<lparr>so_type = getClassName this,
      so_direction1 = asArray (direction1 this),
      so_direction2 = asArray (direction2 this),
      so_meshId = map_option mesh_id (mesh this),
      so_useMeshNormalsForDirection = useMeshNormalsForDirection this\<rparr>"

text \<open>
  \<open>parse\<close>: the emitter after the call. \<open>if (serializationObject.meshId)\<close> holds for a
  string that is present and not empty; \<open>getLastMeshByID(...) || undefined\<close> is the mesh
  found, or no mesh.
\<close>

definition parse :: "MeshParticleEmitter \<Rightarrow> SerializationObject \<Rightarrow> Scene \<Rightarrow> MeshParticleEmitter" where
  "parse this serializationObject scene =
     (let this1 = this\<lparr>direction1 := FromArrayToRef (so_direction1 serializationObject) (Some 0)\<rparr>;
          this2 = this1\<lparr>direction2 := FromArrayToRef (so_direction2 serializationObject) (Some 0)\<rparr>;
          this3 = (case so_meshId serializationObject of
                     None \<Rightarrow> this2
                   | Some ident \<Rightarrow>
                       if ident \<noteq> [] then this2\<lparr>mesh := getLastMeshByID scene ident\<rparr> else this2)
      in this3\<lparr>useMeshNormalsForDirection := so_useMeshNormalsForDirection serializationObject\<rparr>)"

section \<open>Concrete meshes\<close>

text \<open>
  A unit square in the XY plane made of two triangles, with all normals \<open>(0,0,1)\<close>; a
  single triangle; a triangle whose third index names no vertex; and a mesh whose arrays
  are present and empty.
\<close>

definition squareMesh :: AbstractMesh where
  "squareMesh =
     \<lparr>mesh_id = ''square'',
      mesh_indices = Some [0, 1, 2, 0, 2, 3],
      mesh_positions = Some (map Num [0, 0, 0, 1, 0, 0, 1, 1, 0, 0, 1, 0]),
      mesh_normals = Some (map Num [0, 0, 1, 0, 0, 1, 0, 0, 1, 0, 0, 1])\<rparr>"

definition triangleMesh :: AbstractMesh where
  "triangleMesh =
     \<lparr>mesh_id = ''triangle'',
      mesh_indices = Some [0, 1, 2],
      mesh_positions = Some (map Num [0, 0, 0, 1, 0, 0, 0, 1, 0]),
      mesh_normals = Some (map Num [0, 0, 1, 0, 0, 1, 0, 0, 1])\<rparr>"

definition badIndexMesh :: AbstractMesh where
  "badIndexMesh =
     \<lparr>mesh_id = ''bad'',
      mesh_indices = Some [0, 1, 7],
      mesh_positions = Some (map Num [0, 0, 0, 1, 0, 0, 0, 1, 0]),
      mesh_normals = Some (map Num [0, 0, 1, 0, 0, 1, 0, 0, 1])\<rparr>"

definition emptyMesh :: AbstractMesh where
  "emptyMesh =
     \<lparr>mesh_id = ''empty'', mesh_indices = Some [], mesh_positions = Some [],
      mesh_normals = Some []\<rparr>"

definition squareScene :: Scene where
  "squareScene = \<lparr>meshes = [squareMesh]\<rparr>"

text \<open>
  An emitter on the square in range mode, with \<open>direction1\<close> above \<open>direction2\<close> on
  the x axis, equal to it on the y axis and below it on the z axis.
\<close>

definition rangeEmitter :: MeshParticleEmitter where
  "rangeEmitter =
     (new_MeshParticleEmitter (Some squareMesh))
       \<lparr>direction1 := \<lparr>vx = Num 2, vy = Num 0, vz = Num (- 1)\<rparr>,
        direction2 := \<lparr>vx = Num (- 2), vy = Num 0, vz = Num 1\<rparr>,
        useMeshNormalsForDirection := False\<rparr>"

text \<open>The vector whose three components are NaN.\<close>

definition NaNVector :: Vector3 where
  "NaNVector = \<lparr>vx = NaN, vy = NaN, vz = NaN\<rparr>"

text \<open>
  A fetched face index has no vertex in a float array when it is \<open>undefined\<close>, negative,
  or at least the vertex count (the array holds three floats per vertex).
\<close>

definition vertexMissing :: "num list \<Rightarrow> int option \<Rightarrow> bool" where
  "vertexMissing array faceIndex =
     (case faceIndex of None \<Rightarrow> True | Some v \<Rightarrow> v < 0 \<or> int (length array) \<le> 3 * v)"

section \<open>Properties\<close>

lemmas model_defs =
  startPositionFunction_def startDirectionFunction_def new_MeshParticleEmitter_def
  getIndices_def getVerticesData_def randomFaceIndex_def ToInt32_def barycentric_def
  array_get_def times3_def FromArrayToRef_def float_get_def interpolate_def
  TransformCoordinatesFromFloatsToRef_def TransformNormalFromFloatsToRef_def
  TransformNormalToRef_def Identity_def Zero_def RandomRange_def Let_def

subsection \<open>Barycentric weights\<close>

text \<open>
  C7. For two draws \<open>r1\<close>, \<open>r2\<close> in \<open>[0,1)\<close> the weights that position sampling
  computes are \<open>bu = r1\<close>, \<open>bv = r2 * (1 - bu)\<close>, \<open>bw = 1 - bu - bv\<close>; none is negative
  and they sum to exactly 1 (in exact arithmetic).
\<close>

theorem barycentric_weights:
  assumes "0 \<le> r1" and "r1 < 1" and "0 \<le> r2" and "r2 < 1"
  shows "case barycentric r1 r2 of (bu, bv, bw) \<Rightarrow>
           bu = r1 \<and> bv = r2 * (1 - bu) \<and> bw = 1 - bu - bv \<and>
           0 \<le> bu \<and> 0 \<le> bv \<and> 0 \<le> bw \<and> bu + bv + bw = 1"
proof -
  have bv: "0 \<le> r2 * (1 - r1)"
    using assms by simp
  have "1 - r1 - r2 * (1 - r1) = (1 - r1) * (1 - r2)"
    by (simp add: algebra_simps)
  moreover have "0 \<le> (1 - r1) * (1 - r2)"
    using assms by simp
  ultimately have bw: "0 \<le> 1 - r1 - r2 * (1 - r1)"
    by simp
  show ?thesis
    using assms(1) bv bw by (simp add: barycentric_def Let_def)
qed

theorem barycentric_weights_witness:
  "barycentric (1 / 2) (1 / 2) = (1 / 2, 1 / 4, 1 / 4) \<and>
   (case barycentric (1 / 2) (1 / 2) of (bu, bv, bw) \<Rightarrow>
           bu = 1 / 2 \<and> bv = 1 / 2 * (1 - bu) \<and> bw = 1 - bu - bv \<and>
           0 \<le> bu \<and> 0 \<le> bv \<and> 0 \<le> bw \<and> bu + bv + bw = 1)"
  using barycentric_weights [of "1 / 2" "1 / 2"] by (simp add: barycentric_def Let_def)

subsection \<open>Position sampling without geometry\<close>

text \<open>
  C5. When the index array or the position array is absent, position sampling returns at
  once: the output position and the whole emitter, cached normal included, are as before.
\<close>

theorem startPosition_absent_noop:
  assumes "indices this = None \<or> positions this = None"
  shows "startPositionFunction this worldMatrix positionToUpdate r r1 r2
           = (this, positionToUpdate)"
  using assms by (auto simp: startPositionFunction_def split: option.splits)

theorem startPosition_absent_noop_witness:
  "indices (new_MeshParticleEmitter None) = None \<and>
   startPositionFunction (new_MeshParticleEmitter None) Identity Zero (1 / 4) (1 / 2) (1 / 2)
     = (new_MeshParticleEmitter None, Zero)"
  using startPosition_absent_noop
          [of "new_MeshParticleEmitter None" Identity Zero "1 / 4" "1 / 2" "1 / 2"]
  by (simp add: new_MeshParticleEmitter_def)

subsection \<open>The choice of the triangle\<close>

text \<open>
  C1. The claim: the fetched triple starts at a multiple of 3, at \<open>indices[3t]\<close> for a
  triangle \<open>t\<close>. On the square, with the draw \<open>1/4\<close>, the code starts at index 1: it
  fetches \<open>indices[1], indices[2], indices[3]\<close>, a triple that starts inside the first
  triangle of the index array and ends in the second (the vertices 1, 2, 0), and with the
  weights \<open>(1/2, 1/4, 1/4)\<close> writes the point \<open>(3/4, 1/4, 0)\<close>.
\<close>

theorem randomFaceIndex_not_triangle_aligned:
  "randomFaceIndex [0, 1, 2, 0, 2, 3] (1 / 4) = 1 \<and>
   \<not> 3 dvd randomFaceIndex [0, 1, 2, 0, 2, 3] (1 / 4) \<and>
   array_get [0, 1, 2, 0, 2, 3 :: int] (randomFaceIndex [0, 1, 2, 0, 2, 3] (1 / 4)) = Some 1 \<and>
   array_get [0, 1, 2, 0, 2, 3 :: int] (randomFaceIndex [0, 1, 2, 0, 2, 3] (1 / 4) + 1) = Some 2 \<and>
   array_get [0, 1, 2, 0, 2, 3 :: int] (randomFaceIndex [0, 1, 2, 0, 2, 3] (1 / 4) + 2) = Some 0 \<and>
   snd (startPositionFunction (new_MeshParticleEmitter (Some squareMesh)) Identity Zero
          (1 / 4) (1 / 2) (1 / 2))
     = \<lparr>vx = Num (3 / 4), vy = Num (1 / 4), vz = Num 0\<rparr>"
  by (simp add: model_defs squareMesh_def)

text \<open>
  C10. The claim: for an index array of length \<open>n \<ge> 3\<close> the face start index \<open>f\<close> has
  \<open>f + 2 < n\<close> for every draw. On the single triangle (\<open>n = 3\<close>), with the draw \<open>1/2\<close>,
  the code starts at \<open>f = 1\<close>: \<open>f + 2 = 3\<close> is past the end, \<open>indices[3]\<close> is
  \<open>undefined\<close>, and the position written is NaN.
\<close>

theorem randomFaceIndex_reads_past_end:
  "randomFaceIndex [0, 1, 2] (1 / 2) = 1 \<and>
   \<not> randomFaceIndex [0, 1, 2] (1 / 2) + 2 < int (length [0, 1, 2 :: int]) \<and>
   array_get [0, 1, 2 :: int] (randomFaceIndex [0, 1, 2] (1 / 2) + 2) = None \<and>
   snd (startPositionFunction (new_MeshParticleEmitter (Some triangleMesh)) Identity Zero
          (1 / 2) (1 / 2) (1 / 2)) = NaNVector"
  by (simp add: model_defs triangleMesh_def NaNVector_def)

subsection \<open>Degenerate geometry\<close>

lemma float_get_missing:
  assumes "vertexMissing array faceIndex" and "0 \<le> k" and "k \<le> 2"
  shows "float_get array (map_option (\<lambda>i. i + k) (times3 faceIndex)) = NaN"
  using assms
  by (cases faceIndex) (auto simp: vertexMissing_def float_get_def array_get_def times3_def)

lemma FromArrayToRef_missing:
  assumes "vertexMissing array faceIndex"
  shows "FromArrayToRef array (times3 faceIndex) = NaNVector"
  using float_get_missing [OF assms, of 0] float_get_missing [OF assms, of 1]
    float_get_missing [OF assms, of 2]
  by (simp add: FromArrayToRef_def NaNVector_def option.map_ident)

lemma vertexMissing_same_length:
  "length a = length b \<Longrightarrow> vertexMissing a faceIndex = vertexMissing b faceIndex"
  by (cases faceIndex) (simp_all add: vertexMissing_def)

lemma interpolate_NaN:
  assumes "vertexA = NaNVector \<or> vertexB = NaNVector \<or> vertexC = NaNVector"
  shows "interpolate w vertexA vertexB vertexC = NaNVector"
  using assms by (auto simp: interpolate_def NaNVector_def split: prod.splits)

lemma TransformCoordinates_NaN:
  "TransformCoordinatesFromFloatsToRef (vx NaNVector) (vy NaNVector) (vz NaNVector) worldMatrix
     = NaNVector"
  by (simp add: TransformCoordinatesFromFloatsToRef_def NaNVector_def Let_def)

lemma vertexMissing_empty: "vertexMissing array (array_get [] i)"
  by (simp add: vertexMissing_def array_get_def)

text \<open>
  C3, as claimed: on an empty index array, or with an index that is at least the vertex
  count, position sampling is a no-op. It is not: on the empty mesh, and on the triangle
  whose third index is 7, the call overwrites the output position and the cached normal.
\<close>

theorem startPosition_degenerate_not_skipped:
  "snd (startPositionFunction (new_MeshParticleEmitter (Some emptyMesh)) Identity Zero
          (1 / 2) (1 / 2) (1 / 2)) \<noteq> Zero \<and>
   fst (startPositionFunction (new_MeshParticleEmitter (Some emptyMesh)) Identity Zero
          (1 / 2) (1 / 2) (1 / 2)) \<noteq> new_MeshParticleEmitter (Some emptyMesh) \<and>
   snd (startPositionFunction (new_MeshParticleEmitter (Some badIndexMesh)) Identity Zero
          0 (1 / 2) (1 / 2)) \<noteq> Zero \<and>
   fst (startPositionFunction (new_MeshParticleEmitter (Some badIndexMesh)) Identity Zero
          0 (1 / 2) (1 / 2)) \<noteq> new_MeshParticleEmitter (Some badIndexMesh)"
  by (simp add: model_defs emptyMesh_def badIndexMesh_def)

text \<open>
  C3, amended. With the index and position arrays present, when the index array is empty
  or one of the three fetched face indices is \<open>undefined\<close>, negative or at least the
  vertex count, the call is not skipped and does not raise: it writes a position whose
  three components are NaN; with normal mode active and a normals array as long as the
  position array it overwrites the cached normal with NaN components as well, and with
  normal mode inactive or no normals it leaves the emitter as it was.
\<close>

theorem startPosition_degenerate_writes_NaN:
  assumes "indices this = Some idx" and "positions this = Some pos"
    and "idx = [] \<or>
         vertexMissing pos (array_get idx (randomFaceIndex idx r)) \<or>
         vertexMissing pos (array_get idx (randomFaceIndex idx r + 1)) \<or>
         vertexMissing pos (array_get idx (randomFaceIndex idx r + 2))"
  shows "snd (startPositionFunction this worldMatrix positionToUpdate r r1 r2) = NaNVector \<and>
         (useMeshNormalsForDirection this \<and> normals this = Some nrm \<and> length nrm = length pos
            \<longrightarrow> fst (startPositionFunction this worldMatrix positionToUpdate r r1 r2)
                  = this\<lparr>storedNormal := NaNVector\<rparr>) \<and>
         (\<not> useMeshNormalsForDirection this \<or> normals this = None
            \<longrightarrow> fst (startPositionFunction this worldMatrix positionToUpdate r r1 r2) = this)"
proof -
  let ?f = "randomFaceIndex idx r"
  let ?A = "array_get idx ?f" and ?B = "array_get idx (?f + 1)" and ?C = "array_get idx (?f + 2)"
  have miss: "vertexMissing pos ?A \<or> vertexMissing pos ?B \<or> vertexMissing pos ?C"
    using assms(3) vertexMissing_empty by auto
  have pos: "interpolate (barycentric r1 r2) (FromArrayToRef pos (times3 ?A))
               (FromArrayToRef pos (times3 ?B)) (FromArrayToRef pos (times3 ?C)) = NaNVector"
    using miss by (intro interpolate_NaN) (auto simp: FromArrayToRef_missing)
  have nrm: "interpolate (barycentric r1 r2) (FromArrayToRef nrm (times3 ?A))
               (FromArrayToRef nrm (times3 ?B)) (FromArrayToRef nrm (times3 ?C)) = NaNVector"
    if "length nrm = length pos"
  proof -
    have "vertexMissing nrm ?A \<or> vertexMissing nrm ?B \<or> vertexMissing nrm ?C"
      using miss vertexMissing_same_length [OF that] by simp
    then show ?thesis
      by (intro interpolate_NaN) (auto simp: FromArrayToRef_missing)
  qed
  have written: "snd (startPositionFunction this worldMatrix positionToUpdate r r1 r2) = NaNVector"
    using assms(1,2) pos TransformCoordinates_NaN
    by (simp add: startPositionFunction_def Let_def split: option.splits bool.splits)
  have cached: "fst (startPositionFunction this worldMatrix positionToUpdate r r1 r2)
                  = this\<lparr>storedNormal := NaNVector\<rparr>"
    if "useMeshNormalsForDirection this" and "normals this = Some nrm"
      and "length nrm = length pos"
    using assms(1,2) that nrm by (simp add: startPositionFunction_def Let_def)
  have kept: "fst (startPositionFunction this worldMatrix positionToUpdate r r1 r2) = this"
    if "\<not> useMeshNormalsForDirection this \<or> normals this = None"
    using assms(1,2) that
    by (auto simp: startPositionFunction_def Let_def split: option.splits bool.splits)
  show ?thesis
    using written cached kept by blast
qed

theorem startPosition_degenerate_writes_NaN_witness:
  "indices (new_MeshParticleEmitter (Some badIndexMesh)) = Some [0, 1, 7] \<and>
   vertexMissing (map Num [0, 0, 0, 1, 0, 0, 0, 1, 0])
     (array_get [0, 1, 7] (randomFaceIndex [0, 1, 7] 0 + 2)) \<and>
   startPositionFunction (new_MeshParticleEmitter (Some badIndexMesh)) Identity Zero 0 (1 / 2) (1 / 2)
     = ((new_MeshParticleEmitter (Some badIndexMesh))\<lparr>storedNormal := NaNVector\<rparr>, NaNVector)"
proof -
  let ?e = "new_MeshParticleEmitter (Some badIndexMesh)"
  have e: "indices ?e = Some [0, 1, 7]"
    "positions ?e = Some (map Num [0, 0, 0, 1, 0, 0, 0, 1, 0])"
    "normals ?e = Some (map Num [0, 0, 1, 0, 0, 1, 0, 0, 1])"
    "useMeshNormalsForDirection ?e"
    by (simp_all add: new_MeshParticleEmitter_def badIndexMesh_def getIndices_def
        getVerticesData_def)
  have m: "vertexMissing (map Num [0, 0, 0, 1, 0, 0, 0, 1, 0])
             (array_get [0, 1, 7] (randomFaceIndex [0, 1, 7] 0 + 2))"
    by (simp add: vertexMissing_def array_get_def randomFaceIndex_def ToInt32_def)
  from startPosition_degenerate_writes_NaN
         [where this = ?e and idx = "[0, 1, 7]" and pos = "map Num [0, 0, 0, 1, 0, 0, 0, 1, 0]"
            and r = 0 and nrm = "map Num [0, 0, 1, 0, 0, 1, 0, 0, 1]"
            and worldMatrix = Identity and positionToUpdate = Zero
            and ?r1.0 = "1 / 2" and ?r2.0 = "1 / 2"]
       e m
  show ?thesis
    by (simp add: prod_eq_iff)
qed

subsection \<open>Parsing\<close>

text \<open>
  C4. The claim: parse, given a record with a mesh id, rebinds the emitter by
  re-extracting the snapshot from the resolved mesh. Parsing the record of an emitter
  bound to the square into a fresh emitter, with the square in the scene, sets \<open>mesh\<close>
  to the square but leaves the index, position and normal arrays absent, where the
  constructor on the same mesh extracts them; position sampling on the parsed emitter
  writes nothing.
\<close>

theorem parse_leaves_snapshot_absent:
  "mesh (parse (new_MeshParticleEmitter None)
           (serialize (new_MeshParticleEmitter (Some squareMesh))) squareScene) = Some squareMesh \<and>
   indices (parse (new_MeshParticleEmitter None)
           (serialize (new_MeshParticleEmitter (Some squareMesh))) squareScene) = None \<and>
   positions (parse (new_MeshParticleEmitter None)
           (serialize (new_MeshParticleEmitter (Some squareMesh))) squareScene) = None \<and>
   normals (parse (new_MeshParticleEmitter None)
           (serialize (new_MeshParticleEmitter (Some squareMesh))) squareScene) = None \<and>
   indices (new_MeshParticleEmitter (Some squareMesh)) = Some [0, 1, 2, 0, 2, 3] \<and>
   snd (startPositionFunction
          (parse (new_MeshParticleEmitter None)
             (serialize (new_MeshParticleEmitter (Some squareMesh))) squareScene)
          Identity Zero (1 / 2) (1 / 2) (1 / 2)) = Zero"
  by (simp add: model_defs parse_def serialize_def getLastMeshByID_def squareScene_def
      squareMesh_def getClassName_def asArray_def)

subsection \<open>From the position call to the direction call\<close>

lemma TransformNormal_ignores_translation:
  "TransformNormalFromFloatsToRef x y z (setTranslation worldMatrix tx ty tz)
     = TransformNormalFromFloatsToRef x y z worldMatrix"
  by (simp add: TransformNormalFromFloatsToRef_def setTranslation_def Let_def)

text \<open>
  C2. With normal mode active and the normals present (and the index and position arrays
  present, so that a face is sampled), a position call with the weights \<open>(bu, bv, bw)\<close>
  writes the world transform of \<open>bu * A + bv * B + bw * C\<close> over the positions of the
  three fetched vertices, and stores in the cached normal the same combination of their
  three normals, with the same weights, neither normalized nor transformed; nothing else
  of the emitter changes. The direction call that follows writes the normal transform
  of that cached normal by its world matrix, whatever the draws, and the translation of
  the matrix has no effect on it.
\<close>

theorem position_then_direction_uses_cached_normal:
  assumes "useMeshNormalsForDirection this" and "normals this = Some nrm"
    and "indices this = Some idx" and "positions this = Some pos"
  shows "case barycentric r1 r2 of (bu, bv, bw) \<Rightarrow>
           let face = randomFaceIndex idx r;
               faceIndexA = array_get idx face;
               faceIndexB = array_get idx (face + 1);
               faceIndexC = array_get idx (face + 2);
               pA = FromArrayToRef pos (times3 faceIndexA);
               pB = FromArrayToRef pos (times3 faceIndexB);
               pC = FromArrayToRef pos (times3 faceIndexC);
               nA = FromArrayToRef nrm (times3 faceIndexA);
               nB = FromArrayToRef nrm (times3 faceIndexB);
               nC = FromArrayToRef nrm (times3 faceIndexC);
               cached = \<lparr>vx = Num bu * vx nA + Num bv * vx nB + Num bw * vx nC,
                         vy = Num bu * vy nA + Num bv * vy nB + Num bw * vy nC,
                         vz = Num bu * vz nA + Num bv * vz nB + Num bw * vz nC\<rparr>;
               this' = fst (startPositionFunction this worldMatrix positionToUpdate r r1 r2)
           in snd (startPositionFunction this worldMatrix positionToUpdate r r1 r2)
                = TransformCoordinatesFromFloatsToRef
                    (Num bu * vx pA + Num bv * vx pB + Num bw * vx pC)
                    (Num bu * vy pA + Num bv * vy pB + Num bw * vy pC)
                    (Num bu * vz pA + Num bv * vz pB + Num bw * vz pC) worldMatrix \<and>
              this' = this\<lparr>storedNormal := cached\<rparr> \<and>
              startDirectionFunction this' worldMatrix2 directionToUpdate rX rY rZ
                = TransformNormalToRef cached worldMatrix2 \<and>
              TransformNormalToRef cached (setTranslation worldMatrix2 tx ty tz)
                = TransformNormalToRef cached worldMatrix2"
  using assms
  by (simp add: startPositionFunction_def startDirectionFunction_def interpolate_def Let_def
      TransformNormalToRef_def TransformNormal_ignores_translation split: prod.splits)

theorem position_then_direction_uses_cached_normal_witness:
  "useMeshNormalsForDirection (new_MeshParticleEmitter (Some squareMesh)) \<and>
   normals (new_MeshParticleEmitter (Some squareMesh))
     = Some (map Num [0, 0, 1, 0, 0, 1, 0, 0, 1, 0, 0, 1]) \<and>
   indices (new_MeshParticleEmitter (Some squareMesh)) = Some [0, 1, 2, 0, 2, 3] \<and>
   positions (new_MeshParticleEmitter (Some squareMesh))
     = Some (map Num [0, 0, 0, 1, 0, 0, 1, 1, 0, 0, 1, 0]) \<and>
   snd (startPositionFunction (new_MeshParticleEmitter (Some squareMesh)) Identity Zero
          (1 / 2) (1 / 2) (1 / 2))
     = \<lparr>vx = Num (1 / 4), vy = Num (1 / 2), vz = Num 0\<rparr> \<and>
   fst (startPositionFunction (new_MeshParticleEmitter (Some squareMesh)) Identity Zero
          (1 / 2) (1 / 2) (1 / 2))
     = (new_MeshParticleEmitter (Some squareMesh))
         \<lparr>storedNormal := \<lparr>vx = Num 0, vy = Num 0, vz = Num 1\<rparr>\<rparr> \<and>
   startDirectionFunction
       (fst (startPositionFunction (new_MeshParticleEmitter (Some squareMesh)) Identity Zero
               (1 / 2) (1 / 2) (1 / 2)))
       (setTranslation Identity 5 6 7) Zero 0 0 0
     = \<lparr>vx = Num 0, vy = Num 0, vz = Num 1\<rparr>"
proof -
  let ?e = "new_MeshParticleEmitter (Some squareMesh)"
  have e: "useMeshNormalsForDirection ?e"
    "normals ?e = Some (map Num [0, 0, 1, 0, 0, 1, 0, 0, 1, 0, 0, 1])"
    "indices ?e = Some [0, 1, 2, 0, 2, 3]"
    "positions ?e = Some (map Num [0, 0, 0, 1, 0, 0, 1, 1, 0, 0, 1, 0])"
    by (simp_all add: new_MeshParticleEmitter_def squareMesh_def getIndices_def
        getVerticesData_def)
  have w: "barycentric (1 / 2) (1 / 2) = (1 / 2, 1 / 4, 1 / 4)"
    by (simp add: barycentric_def Let_def)
  have f: "randomFaceIndex [0, 1, 2, 0, 2, 3] (1 / 2) = 3"
    by (simp add: randomFaceIndex_def ToInt32_def)
  from position_then_direction_uses_cached_normal
         [OF e, where r = "1 / 2" and ?r1.0 = "1 / 2" and ?r2.0 = "1 / 2"
            and worldMatrix = Identity and positionToUpdate = Zero
            and ?worldMatrix2.0 = "setTranslation Identity 5 6 7" and directionToUpdate = Zero
            and rX = 0 and rY = 0 and rZ = 0 and tx = 0 and ty = 0 and tz = 0]
  have "snd (startPositionFunction ?e Identity Zero (1 / 2) (1 / 2) (1 / 2))
          = \<lparr>vx = Num (1 / 4), vy = Num (1 / 2), vz = Num 0\<rparr> \<and>
        fst (startPositionFunction ?e Identity Zero (1 / 2) (1 / 2) (1 / 2))
          = ?e\<lparr>storedNormal := \<lparr>vx = Num 0, vy = Num 0, vz = Num 1\<rparr>\<rparr> \<and>
        startDirectionFunction
            (fst (startPositionFunction ?e Identity Zero (1 / 2) (1 / 2) (1 / 2)))
            (setTranslation Identity 5 6 7) Zero 0 0 0
          = \<lparr>vx = Num 0, vy = Num 0, vz = Num 1\<rparr>"
    by (auto simp: w f Let_def array_get_def times3_def FromArrayToRef_def float_get_def
        TransformCoordinatesFromFloatsToRef_def TransformNormalToRef_def
        TransformNormalFromFloatsToRef_def Identity_def setTranslation_def)
  then show ?thesis
    using e by blast
qed

subsection \<open>Directions drawn from the range\<close>

lemma RandomRange_between:
  assumes "0 \<le> r" and "r < 1"
  shows "\<exists>c. RandomRange r (Num a) (Num b) = Num c \<and> min a b \<le> c \<and> c \<le> max a b"
proof -
  let ?c = "r * (b - a) + a"
  have lo: "min a b \<le> ?c"
  proof (cases "a \<le> b")
    case True
    then have "0 \<le> r * (b - a)"
      using assms by simp
    then show ?thesis
      using True by simp
  next
    case False
    then have "0 \<le> (1 - r) * (a - b)"
      using assms by simp
    then have "b \<le> ?c"
      by (simp add: algebra_simps)
    then show ?thesis
      using False by simp
  qed
  have hi: "?c \<le> max a b"
  proof (cases "a \<le> b")
    case True
    then have "0 \<le> (1 - r) * (b - a)"
      using assms by simp
    then have "?c \<le> b"
      by (simp add: algebra_simps)
    then show ?thesis
      using True by simp
  next
    case False
    then have "0 \<le> r * (a - b)"
      using assms by simp
    then have "?c \<le> a"
      by (simp add: algebra_simps)
    then show ?thesis
      using False by simp
  qed
  have "RandomRange r (Num a) (Num b) = Num ?c"
    by (simp add: RandomRange_def)
  then show ?thesis
    using lo hi by blast
qed

text \<open>
  C6. With normal mode inactive or the normals absent, and with finite direction bounds,
  the three components drawn for draws in \<open>[0,1)\<close> lie each between the smaller and the
  larger of the two bounds of its axis, in whichever order the bounds come; the direction
  written is the normal transform of the drawn vector by the world matrix, on which the
  translation of the matrix has no effect.
\<close>

theorem direction_within_range:
  assumes "\<not> useMeshNormalsForDirection this \<or> normals this = None"
    and "direction1 this = \<lparr>vx = Num x1, vy = Num y1, vz = Num z1\<rparr>"
    and "direction2 this = \<lparr>vx = Num x2, vy = Num y2, vz = Num z2\<rparr>"
    and "0 \<le> rX \<and> rX < 1" and "0 \<le> rY \<and> rY < 1" and "0 \<le> rZ \<and> rZ < 1"
  shows "\<exists>randX randY randZ.
           RandomRange rX (Num x1) (Num x2) = Num randX \<and>
           RandomRange rY (Num y1) (Num y2) = Num randY \<and>
           RandomRange rZ (Num z1) (Num z2) = Num randZ \<and>
           min x1 x2 \<le> randX \<and> randX \<le> max x1 x2 \<and>
           min y1 y2 \<le> randY \<and> randY \<le> max y1 y2 \<and>
           min z1 z2 \<le> randZ \<and> randZ \<le> max z1 z2 \<and>
           startDirectionFunction this worldMatrix directionToUpdate rX rY rZ
             = TransformNormalFromFloatsToRef (Num randX) (Num randY) (Num randZ) worldMatrix \<and>
           TransformNormalFromFloatsToRef (Num randX) (Num randY) (Num randZ)
               (setTranslation worldMatrix tx ty tz)
             = TransformNormalFromFloatsToRef (Num randX) (Num randY) (Num randZ) worldMatrix"
proof -
  obtain randX where X: "RandomRange rX (Num x1) (Num x2) = Num randX"
      "min x1 x2 \<le> randX" "randX \<le> max x1 x2"
    using RandomRange_between [of rX x1 x2] assms(4) by blast
  obtain randY where Y: "RandomRange rY (Num y1) (Num y2) = Num randY"
      "min y1 y2 \<le> randY" "randY \<le> max y1 y2"
    using RandomRange_between [of rY y1 y2] assms(5) by blast
  obtain randZ where Z: "RandomRange rZ (Num z1) (Num z2) = Num randZ"
      "min z1 z2 \<le> randZ" "randZ \<le> max z1 z2"
    using RandomRange_between [of rZ z1 z2] assms(6) by blast
  have "startDirectionFunction this worldMatrix directionToUpdate rX rY rZ
          = TransformNormalFromFloatsToRef (Num randX) (Num randY) (Num randZ) worldMatrix"
    using assms(1,2,3) X(1) Y(1) Z(1)
    by (auto simp: startDirectionFunction_def Let_def)
  then show ?thesis
    using X Y Z TransformNormal_ignores_translation by blast
qed

theorem direction_within_range_witness:
  "\<not> useMeshNormalsForDirection rangeEmitter \<and>
   direction1 rangeEmitter = \<lparr>vx = Num 2, vy = Num 0, vz = Num (- 1)\<rparr> \<and>
   direction2 rangeEmitter = \<lparr>vx = Num (- 2), vy = Num 0, vz = Num 1\<rparr> \<and>
   (\<exists>randX randY randZ.
      RandomRange (1 / 4) (Num 2) (Num (- 2)) = Num randX \<and>
      RandomRange (1 / 2) (Num 0) (Num 0) = Num randY \<and>
      RandomRange (3 / 4) (Num (- 1)) (Num 1) = Num randZ \<and>
      - 2 \<le> randX \<and> randX \<le> 2 \<and> 0 \<le> randY \<and> randY \<le> 0 \<and> - 1 \<le> randZ \<and> randZ \<le> 1 \<and>
      startDirectionFunction rangeEmitter Identity Zero (1 / 4) (1 / 2) (3 / 4)
        = TransformNormalFromFloatsToRef (Num randX) (Num randY) (Num randZ) Identity \<and>
      TransformNormalFromFloatsToRef (Num randX) (Num randY) (Num randZ)
          (setTranslation Identity 5 6 7)
        = TransformNormalFromFloatsToRef (Num randX) (Num randY) (Num randZ) Identity) \<and>
   startDirectionFunction rangeEmitter Identity Zero (1 / 4) (1 / 2) (3 / 4)
     = \<lparr>vx = Num 1, vy = Num 0, vz = Num (1 / 2)\<rparr>"
proof -
  have e: "\<not> useMeshNormalsForDirection rangeEmitter"
    "direction1 rangeEmitter = \<lparr>vx = Num 2, vy = Num 0, vz = Num (- 1)\<rparr>"
    "direction2 rangeEmitter = \<lparr>vx = Num (- 2), vy = Num 0, vz = Num 1\<rparr>"
    by (simp_all add: rangeEmitter_def)
  have v: "startDirectionFunction rangeEmitter Identity Zero (1 / 4) (1 / 2) (3 / 4)
             = \<lparr>vx = Num 1, vy = Num 0, vz = Num (1 / 2)\<rparr>"
    by (simp add: rangeEmitter_def model_defs)
  from direction_within_range
         [where this = rangeEmitter and rX = "1 / 4" and rY = "1 / 2" and rZ = "3 / 4"
            and worldMatrix = Identity and directionToUpdate = Zero
            and tx = 5 and ty = 6 and tz = 7, OF disjI1 [OF e(1)] e(2) e(3)]
  have "\<exists>randX randY randZ.
      RandomRange (1 / 4) (Num 2) (Num (- 2)) = Num randX \<and>
      RandomRange (1 / 2) (Num 0) (Num 0) = Num randY \<and>
      RandomRange (3 / 4) (Num (- 1)) (Num 1) = Num randZ \<and>
      - 2 \<le> randX \<and> randX \<le> 2 \<and> 0 \<le> randY \<and> randY \<le> 0 \<and> - 1 \<le> randZ \<and> randZ \<le> 1 \<and>
      startDirectionFunction rangeEmitter Identity Zero (1 / 4) (1 / 2) (3 / 4)
        = TransformNormalFromFloatsToRef (Num randX) (Num randY) (Num randZ) Identity \<and>
      TransformNormalFromFloatsToRef (Num randX) (Num randY) (Num randZ)
          (setTranslation Identity 5 6 7)
        = TransformNormalFromFloatsToRef (Num randX) (Num randY) (Num randZ) Identity"
    by simp
  then show ?thesis
    using e v by blast
qed

subsection \<open>Serialization\<close>

text \<open>
  C8. The record that \<open>serialize\<close> builds has the type \<open>MeshParticleEmitter\<close>, the two
  directions as \<open>[x, y, z]\<close>, the id of the mesh when there is one, and the mode flag;
  parsing it into any emitter, a fresh one included, with any scene, gives back the two
  directions and the mode flag.
\<close>

theorem serialize_parse_roundtrip:
  "so_type (serialize e) = ''MeshParticleEmitter'' \<and>
   so_direction1 (serialize e) = [vx (direction1 e), vy (direction1 e), vz (direction1 e)] \<and>
   so_direction2 (serialize e) = [vx (direction2 e), vy (direction2 e), vz (direction2 e)] \<and>
   so_meshId (serialize e) = map_option mesh_id (mesh e) \<and>
   so_useMeshNormalsForDirection (serialize e) = useMeshNormalsForDirection e \<and>
   direction1 (parse fresh (serialize e) scene) = direction1 e \<and>
   direction2 (parse fresh (serialize e) scene) = direction2 e \<and>
   useMeshNormalsForDirection (parse fresh (serialize e) scene) = useMeshNormalsForDirection e"
  by (simp add: serialize_def parse_def getClassName_def asArray_def FromArrayToRef_def
      float_get_def array_get_def Let_def split: option.splits)

subsection \<open>Cloning\<close>




end
